theory Spec2Isabelle
  imports Main
begin

section \<open>Strings, values and requests\<close>

text \<open>
  A Python \<open>str\<close> is a sequence of Unicode code points; \<open>len\<close>, slicing and
  \<open>rfind\<close> count code points. A string is therefore a list of code points, each a
  natural number. \<open>ascii\<close> turns an ASCII literal of the source into that form.
\<close>

type_synonym pystr = "nat list"

definition ascii :: "string \<Rightarrow> pystr" where
  "ascii s = map of_char s"

text \<open>The values the source stores in the \<open>params\<close> and \<open>data\<close> dictionaries.\<close>

datatype pyval = VStr pystr | VInt int | VNone

text \<open>
  A dictionary literal of the source is an association list in insertion order; its keys
  are literals of the source.
\<close>

type_synonym pydict = "(string \<times> pyval) list"

datatype verb = GET | POST | PUT | DELETE

text \<open>
  One call to the transport: \<open>get(path, params=...)\<close>, \<open>post(path, data=...)\<close>,
  \<open>put\<close>, \<open>delete\<close> or \<open>request(verb, path, ...)\<close>.
\<close>

record request =
  req_verb :: verb
  req_path :: pystr
  req_params :: pydict
  req_data :: pydict

text \<open>
  Exceptions are values. \<open>TransportError e\<close> is the exception \<open>e\<close> raised by the
  transport (API exceptions, forbidden content, ...), passed on as it is; the other
  constructors are the exceptions the modelled code raises itself. An
  \<open>AssertionError\<close> carries the place of the failed \<open>assert\<close>.
\<close>

datatype assert_site = ContinueChildren | LoadSingleChild | BatchChildren | RedditorData

datatype error =
    TransportError nat
  | AssertionError assert_site
  | AttributeError
  | IndexError
  | KeyError
  | ValueError
  | UnicodeEncodeError

section \<open>Comment nodes and submissions\<close>

text \<open>
  The attributes of a submission that \<open>MoreComments\<close> reads: \<open>id\<close>, \<open>fullname\<close>,
  \<open>comment_limit\<close> and \<open>comment_sort\<close>.
\<close>

record submission_obj =
  sub_id :: pystr
  fullname :: pystr
  comment_limit :: pyval
  comment_sort :: pystr

text \<open>
  A node of a comment tree: its identifier, its \<open>submission\<close> back-reference (\<open>None\<close>
  until it is set) and its \<open>replies\<close>.
\<close>

datatype node = Node (node_id: pystr) (node_submission: "submission_obj option") (replies: "node list")

fun set_submission :: "submission_obj option \<Rightarrow> node \<Rightarrow> node" where
  "set_submission s (Node i _ rs) = Node i s rs"

section \<open>Rules\<close>

text \<open>
  The attributes of a \<open>Rule\<close> that the moderation classes read. \<open>rule_subreddit\<close> is
  the attribute \<open>subreddit\<close>, given by the \<open>str\<close> of the subreddit; it can be
  \<open>None\<close>, and then \<open>__getattribute__\<close> raises \<open>ValueError\<close> when it is read.
\<close>

record rule =
  rule_subreddit :: "pystr option"
  short_name :: pystr
  description :: pystr
  kind :: pystr
  violation_reason :: pystr

section \<open>Redditors and multireddits\<close>

text \<open>
  A \<open>Redditor\<close>: the attribute \<open>name\<close> (missing when the object was built from a
  fullname and is not fetched yet), the attribute \<open>_fullname\<close> (missing unless it was
  built from a fullname) and the flag \<open>_fetched\<close>.
\<close>

record redditor =
  name :: "pystr option"
  fullname_attr :: "pystr option"
  fetched :: bool

text \<open>
  A \<open>Multireddit\<close>: \<open>name\<close>, \<open>path\<close>, \<open>display_name\<close> (present once loaded),
  \<open>_author\<close> and the attribute \<open>subreddits\<close> (the \<open>str\<close> of each subreddit),
  which \<open>_reset_attributes\<close> removes.
\<close>

record multireddit =
  multi_name :: pystr
  path :: pystr
  display_name :: "pystr option"
  author :: redditor
  subreddits :: "pystr list option"

text \<open>
  The redditor that \<open>reddit.user.me()\<close> returns, by its \<open>fullname\<close> and its
  \<open>str\<close>. The call can also return \<open>None\<close>, whose \<open>str\<close> is \<open>None\<close> and
  which has no \<open>fullname\<close>.
\<close>

record account =
  account_fullname :: pystr
  account_name :: pystr

text \<open>A parsed response that the modelled code hands on without looking into it.\<close>

datatype parsed = Parsed nat


section \<open>The transport\<close>

text \<open>
  The \<open>Reddit\<close> instance is not part of the modelled sources. It is a parameter:
  \<^item> \<open>api_path key args\<close> is \<open>API_PATH[key].format(**args)\<close>;
  \<^item> \<open>get_listings\<close>, \<open>post_comments\<close>, ... are the transport seen at one call
    site, which fixes the type of the parsed response that call site uses. A call
    either raises (\<open>Inl e\<close>, where the number \<open>e\<close> names the exception of the transport)
    or returns the parsed response;
  \<^item> \<open>user_me\<close> is the call \<open>reddit.user.me()\<close> and \<open>load_multi\<close> the call
    \<open>load()\<close> of a multireddit, both defined outside the modelled sources: the outcome
    and the requests the call issues;
  \<^item> \<open>json_dumps\<close> is \<open>json.dumps\<close> on a dictionary of strings.
\<close>

record reddit =
  api_path :: "string \<Rightarrow> (string \<times> pystr) list \<Rightarrow> pystr"
  get_listings :: "request \<Rightarrow> nat + node list list"
  post_comments :: "request \<Rightarrow> nat + node list"
  post_rules :: "request \<Rightarrow> nat + rule list"
  get_by_fullname :: "request \<Rightarrow> nat + (pystr \<times> (string \<times> pystr) list) list"
  request_raw :: "request \<Rightarrow> nat + (string \<times> (string \<times> pystr) list) list"
  request_any :: "request \<Rightarrow> nat + parsed"
  user_me :: "(error + account option) \<times> request list"
  load_multi :: "multireddit \<Rightarrow> (error + multireddit) \<times> request list"
  json_dumps :: "(string \<times> pystr) list \<Rightarrow> pystr"

section \<open>ReplyableMixin\<close>

text \<open>The request built by \<open>reply\<close>: the data dictionary and the POST to the comment endpoint.\<close>

definition reply_request :: "reddit \<Rightarrow> pystr \<Rightarrow> pystr \<Rightarrow> request" where
  "reply_request r self_fullname body =
     \<lparr>req_verb = POST, req_path = api_path r ''comment'' [], req_params = [],
      req_data = [(''text'', VStr body), (''thing_id'', VStr self_fullname)]\<rparr>"

text \<open>
  \<open>reply\<close> returns the outcome of the call and the requests it issued. The outcome
  \<open>Inr None\<close> is Python's \<open>None\<close>, returned when \<open>comments[0]\<close> raises
  \<open>IndexError\<close>.
\<close>

definition reply :: "reddit \<Rightarrow> pystr \<Rightarrow> pystr \<Rightarrow> (error + node option) \<times> request list" where
  "reply r self_fullname body =
     (let req = reply_request r self_fullname body
      in case post_comments r req of
           Inl e \<Rightarrow> (Inl (TransportError e), [req])
         | Inr comments \<Rightarrow>
             (case comments of
                [] \<Rightarrow> (Inr None, [req])
              | c # _ \<Rightarrow> (Inr (Some c), [req])))"

section \<open>MoreComments\<close>

text \<open>
  The attributes set by \<open>__init__\<close>: \<open>count\<close> and \<open>parent_id\<close> start as \<open>None\<close>,
  \<open>children\<close> as the empty list, and the data received from the server overwrites them;
  \<open>cached_comments\<close> is the attribute \<open>_comments\<close>.
\<close>

record more_comments =
  count :: "int option"
  parent_id :: "pystr option"
  children :: "pystr list"
  cached_comments :: "node list option"
  submission :: "submission_obj option"

text \<open>
  \<open>__init__\<close>: the defaults, then the attributes of the data that came from the server
  (an attribute the data does not hold keeps its default), then \<open>_comments\<close> and
  \<open>submission\<close> are set to \<open>None\<close>.
\<close>

definition init_more_comments ::
  "int option \<Rightarrow> pystr option \<Rightarrow> pystr list option \<Rightarrow> more_comments" where
  "init_more_comments data_count data_parent_id data_children =
     \<lparr>count = data_count, parent_id = data_parent_id,
      children = (case data_children of None \<Rightarrow> [] | Some cs \<Rightarrow> cs),
      cached_comments = None, submission = None\<rparr>"

text \<open>\<open>sep.join(xs)\<close>.\<close>

fun join :: "pystr \<Rightarrow> pystr list \<Rightarrow> pystr" where
  "join sep [] = []"
| "join sep [x] = x"
| "join sep (x # y # ys) = x @ sep @ join sep (y # ys)"

text \<open>
  \<open>s.split(sep, 1)[1]\<close> for a separator of one character: the text after the first
  separator, and \<open>IndexError\<close> (here \<open>None\<close>) when \<open>s\<close> holds no separator.
\<close>

definition split_tail :: "nat \<Rightarrow> pystr \<Rightarrow> pystr option" where
  "split_tail sep s =
     (if sep \<in> set s then Some (tl (dropWhile (\<lambda>c. c \<noteq> sep) s)) else None)"

definition load_comment_request :: "reddit \<Rightarrow> submission_obj \<Rightarrow> pystr \<Rightarrow> request" where
  "load_comment_request r s comment_id =
     \<lparr>req_verb = GET,
      req_path = api_path r ''submission'' [(''id'', sub_id s)] @ ascii ''_/'' @ comment_id,
      req_params = [(''limit'', comment_limit s), (''sort'', VStr (comment_sort s))],
      req_data = []\<rparr>"

text \<open>
  \<open>_load_comment\<close>. The response is unpacked into two listings; the second one is given
  by its \<open>children\<close>, which must be exactly one comment. The source awaits
  \<open>comments.children\<close>; the model reads it as the list it stands for.
\<close>

definition load_comment :: "reddit \<Rightarrow> more_comments \<Rightarrow> pystr \<Rightarrow> (error + node) \<times> request list" where
  "load_comment r self comment_id =
     (case submission self of
        None \<Rightarrow> (Inl AttributeError, [])
      | Some s \<Rightarrow>
          (let req = load_comment_request r s comment_id
           in case get_listings r req of
                Inl e \<Rightarrow> (Inl (TransportError e), [req])
              | Inr ls \<Rightarrow>
                  (case ls of
                     [_, comments] \<Rightarrow>
                       (case comments of
                          [c] \<Rightarrow> (Inr c, [req])
                        | _ \<Rightarrow> (Inl (AssertionError LoadSingleChild), [req]))
                   | _ \<Rightarrow> (Inl ValueError, [req]))))"

text \<open>
  The loop \<open>for comment in self._comments: comment.submission = self.submission\<close>. The
  comments are mutated in place, so the cache and the returned sequence both see it.
\<close>

definition propagate :: "bool \<Rightarrow> submission_obj option \<Rightarrow> node list \<Rightarrow> node list" where
  "propagate update s cs = (if update then map (set_submission s) cs else cs)"

text \<open>
  \<open>_continue_comments\<close>. The result is the outcome, the object after the call and the
  requests issued.
\<close>

definition continue_comments ::
  "reddit \<Rightarrow> more_comments \<Rightarrow> bool \<Rightarrow> (error + node list) \<times> more_comments \<times> request list" where
  "continue_comments r self update =
     (if children self \<noteq> [] then (Inl (AssertionError ContinueChildren), self, [])
      else case parent_id self of
        None \<Rightarrow> (Inl AttributeError, self, [])
      | Some pid \<Rightarrow>
          (case split_tail 95 pid of
             None \<Rightarrow> (Inl IndexError, self, [])
           | Some comment_id \<Rightarrow>
               (case load_comment r self comment_id of
                  (Inl e, log) \<Rightarrow> (Inl e, self, log)
                | (Inr parent, log) \<Rightarrow>
                    (let cs = propagate update (submission self) (replies parent)
                     in (Inr cs, self\<lparr>cached_comments := Some cs\<rparr>, log)))))"

definition morechildren_request :: "reddit \<Rightarrow> more_comments \<Rightarrow> submission_obj \<Rightarrow> request" where
  "morechildren_request r self s =
     \<lparr>req_verb = POST, req_path = api_path r ''morechildren'' [], req_params = [],
      req_data = [(''children'', VStr (join (ascii '','') (children self))),
                  (''link_id'', VStr (fullname s)),
                  (''sort'', VStr (comment_sort s))]\<rparr>"

text \<open>\<open>comments\<close>.\<close>

definition comments ::
  "reddit \<Rightarrow> more_comments \<Rightarrow> bool \<Rightarrow> (error + node list) \<times> more_comments \<times> request list" where
  "comments r self update =
     (case cached_comments self of
        Some cs \<Rightarrow> (Inr cs, self, [])
      | None \<Rightarrow>
          if count self = Some 0 then continue_comments r self update
          else if children self = [] then (Inl (AssertionError BatchChildren), self, [])
          else case submission self of
            None \<Rightarrow> (Inl AttributeError, self, [])
          | Some s \<Rightarrow>
              (let req = morechildren_request r self s
               in case post_comments r req of
                    Inl e \<Rightarrow> (Inl (TransportError e), self, [req])
                  | Inr delivered \<Rightarrow>
                      (let cs = propagate update (submission self) delivered
                       in (Inr cs, self\<lparr>cached_comments := Some cs\<rparr>, [req]))))"

section \<open>RuleModeration and SubredditRulesModeration\<close>




subsection \<open>urllib.parse.quote\<close>

text \<open>
  \<open>str.encode("utf-8", "strict")\<close>: the bytes of one code point; a surrogate
  (U+D800 to U+DFFF) cannot be encoded, and a number from U+110000 on is no code point.
\<close>

definition utf8_char :: "nat \<Rightarrow> nat list option" where
  "utf8_char c =
     (if c < 0x80 then Some [c]
      else if c < 0x800 then Some [0xC0 + c div 64, 0x80 + c mod 64]
      else if 0xD800 \<le> c \<and> c \<le> 0xDFFF then None
      else if c < 0x10000 then
        Some [0xE0 + c div 4096, 0x80 + (c div 64) mod 64, 0x80 + c mod 64]
      else if c < 0x110000 then
        Some [0xF0 + c div 262144, 0x80 + (c div 4096) mod 64,
              0x80 + (c div 64) mod 64, 0x80 + c mod 64]
      else None)"

fun utf8_encode :: "pystr \<Rightarrow> nat list option" where
  "utf8_encode [] = Some []"
| "utf8_encode (c # cs) =
     (case utf8_char c of
        None \<Rightarrow> None
      | Some bs \<Rightarrow> (case utf8_encode cs of None \<Rightarrow> None | Some rest \<Rightarrow> Some (bs @ rest)))"

text \<open>The bytes that \<open>quote\<close> never escapes: letters, digits and \<open>_.-~\<close>.\<close>

definition always_safe :: "nat \<Rightarrow> bool" where
  "always_safe b =
     ((65 \<le> b \<and> b \<le> 90) \<or> (97 \<le> b \<and> b \<le> 122) \<or> (48 \<le> b \<and> b \<le> 57)
      \<or> b = 95 \<or> b = 46 \<or> b = 45 \<or> b = 126)"

definition hex_digit :: "nat \<Rightarrow> nat" where
  "hex_digit d = (if d < 10 then 48 + d else 55 + d)"

text \<open>
  One byte: kept when it is always safe or one of the ASCII characters of \<open>safe\<close>,
  otherwise written as \<open>%XX\<close> with upper-case hexadecimal digits.
\<close>

definition quote_byte :: "pystr \<Rightarrow> nat \<Rightarrow> pystr" where
  "quote_byte safe b =
     (if always_safe b \<or> (b < 128 \<and> b \<in> set safe) then [b]
      else [37, hex_digit (b div 16), hex_digit (b mod 16)])"

definition quote :: "pystr \<Rightarrow> pystr \<Rightarrow> error + pystr" where
  "quote string safe =
     (case utf8_encode string of
        None \<Rightarrow> Inl UnicodeEncodeError
      | Some bs \<Rightarrow> Inr (concat (map (quote_byte safe) bs)))"

text \<open>
  \<open>SubredditRulesModeration.reorder\<close>; \<open>sr\<close> is \<open>str(self.subreddit_rules.subreddit)\<close>.
\<close>

definition reorder :: "reddit \<Rightarrow> pystr \<Rightarrow> rule list \<Rightarrow> (error + rule list) \<times> request list" where
  "reorder r sr rule_list =
     (case quote (join (ascii '','') (map short_name rule_list)) (ascii '','') of
        Inl e \<Rightarrow> (Inl e, [])
      | Inr order_string \<Rightarrow>
          (let req = \<lparr>req_verb = POST, req_path = api_path r ''reorder_subreddit_rules'' [],
                      req_params = [],
                      req_data = [(''r'', VStr sr), (''new_rule_order'', VStr order_string)]\<rparr>
           in case post_rules r req of
                Inl e \<Rightarrow> (Inl (TransportError e), [req])
              | Inr response \<Rightarrow>
                  (Inr (map (\<lambda>rule. rule\<lparr>rule_subreddit := Some sr\<rparr>) response), [req])))"

section \<open>Multireddit.sluggify\<close>












text \<open>Predicates on strings used to state and prove the properties of \<open>sluggify\<close>.\<close>






section \<open>Redditor\<close>

text \<open>\<open>str(self)\<close>: the attribute named by \<open>STR_FIELD = "name"\<close>.\<close>

definition redditor_str :: "redditor \<Rightarrow> error + pystr" where
  "redditor_str self = (case name self of None \<Rightarrow> Inl AttributeError | Some n \<Rightarrow> Inr n)"

text \<open>\<open>_fetch_username\<close>: \<open>response[fullname]["name"]\<close> of one GET.\<close>

definition fetch_username :: "reddit \<Rightarrow> pystr \<Rightarrow> (error + pystr) \<times> request list" where
  "fetch_username r fullname' =
     (let req = \<lparr>req_verb = GET, req_path = api_path r ''user_by_fullname'' [],
                 req_params = [(''ids'', VStr fullname')], req_data = []\<rparr>
      in case get_by_fullname r req of
           Inl e \<Rightarrow> (Inl (TransportError e), [req])
         | Inr response \<Rightarrow>
             (case map_of response fullname' of
                None \<Rightarrow> (Inl KeyError, [req])
              | Some entry \<Rightarrow>
                  (case map_of entry ''name'' of
                     None \<Rightarrow> (Inl KeyError, [req])
                   | Some n \<Rightarrow> (Inr n, [req]))))"

text \<open>
  \<open>_fetch_info\<close>: with a \<open>_fullname\<close> the name is fetched and stored first. The
  result is the key of the path and its fields, with the object after the call.
\<close>

definition fetch_info ::
  "reddit \<Rightarrow> redditor \<Rightarrow> (error + string \<times> (string \<times> pystr) list) \<times> redditor \<times> request list" where
  "fetch_info r self =
     (case fullname_attr self of
        Some fn \<Rightarrow>
          (case fetch_username r fn of
             (Inl e, log) \<Rightarrow> (Inl e, self, log)
           | (Inr n, log) \<Rightarrow> (Inr (''user_about'', [(''user'', n)]), self\<lparr>name := Some n\<rparr>, log))
      | None \<Rightarrow>
          (case name self of
             None \<Rightarrow> (Inl AttributeError, self, [])
           | Some n \<Rightarrow> (Inr (''user_about'', [(''user'', n)]), self, [])))"

text \<open>\<open>_fetch_data\<close>: the GET of the path that \<open>_fetch_info\<close> names.\<close>

definition fetch_data ::
  "reddit \<Rightarrow> redditor
   \<Rightarrow> (error + (string \<times> (string \<times> pystr) list) list) \<times> redditor \<times> request list" where
  "fetch_data r self =
     (case fetch_info r self of
        (Inl e, self', log) \<Rightarrow> (Inl e, self', log)
      | (Inr (key, args), self', log) \<Rightarrow>
          (let req = \<lparr>req_verb = GET, req_path = api_path r key args,
                      req_params = [], req_data = []\<rparr>
           in case request_raw r req of
                Inl e \<Rightarrow> (Inl (TransportError e), self', log @ [req])
              | Inr data \<Rightarrow> (Inr data, self', log @ [req])))"

text \<open>
  \<open>_fetch\<close>: \<open>data["data"]\<close> makes a new \<open>Redditor\<close>, whose \<open>__init__\<close> asserts
  that data which is not empty holds a name; with empty data the new object has neither a
  name nor a \<open>_fullname\<close>, which the \<open>__init__\<close> of the base class (outside the
  modelled sources, told by \<open>_extra_attribute_to_check\<close> what to look for) refuses
  with \<open>ValueError\<close>. The attributes of the new object overwrite those of this one,
  and \<open>_fetched\<close> becomes true.
\<close>

definition redditor_fetch ::
  "reddit \<Rightarrow> redditor \<Rightarrow> (error + unit) \<times> redditor \<times> request list" where
  "redditor_fetch r self =
     (case fetch_data r self of
        (Inl e, self', log) \<Rightarrow> (Inl e, self', log)
      | (Inr data, self', log) \<Rightarrow>
          (case map_of data ''data'' of
             None \<Rightarrow> (Inl KeyError, self', log)
           | Some d \<Rightarrow>
               if d = [] then (Inl ValueError, self', log)
               else case map_of d ''name'' of
                      None \<Rightarrow> (Inl (AssertionError RedditorData), self', log)
                    | Some n \<Rightarrow> (Inr (), self'\<lparr>name := Some n, fetched := True\<rparr>, log)))"



section \<open>Multireddit\<close>

text \<open>\<open>_ensure_author_fetched\<close>.\<close>

definition ensure_author_fetched ::
  "reddit \<Rightarrow> multireddit \<Rightarrow> (error + unit) \<times> multireddit \<times> request list" where
  "ensure_author_fetched r self =
     (if fetched (author self) then (Inr (), self, [])
      else case redditor_fetch r (author self) of
             (res, author', log) \<Rightarrow> (res, self\<lparr>author := author'\<rparr>, log))"

text \<open>\<open>Multireddit.add\<close>; it returns \<open>None\<close>.\<close>

definition add_request :: "reddit \<Rightarrow> multireddit \<Rightarrow> pystr \<Rightarrow> pystr \<Rightarrow> request" where
  "add_request r self user subreddit =
     \<lparr>req_verb = PUT,
      req_path = api_path r ''multireddit_update''
                   [(''multi'', multi_name self), (''user'', user), (''subreddit'', subreddit)],
      req_params = [],
      req_data = [(''model'', VStr (json_dumps r [(''name'', subreddit)]))]\<rparr>"

definition add ::
  "reddit \<Rightarrow> multireddit \<Rightarrow> pystr \<Rightarrow> (error + unit) \<times> multireddit \<times> request list" where
  "add r self subreddit =
     (case ensure_author_fetched r self of
        (Inl e, self', log) \<Rightarrow> (Inl e, self', log)
      | (Inr _, self', log) \<Rightarrow>
          (case redditor_str (author self') of
             Inl e \<Rightarrow> (Inl e, self', log)
           | Inr user \<Rightarrow>
               (let req = add_request r self' user subreddit
                in case request_any r req of
                     Inl e \<Rightarrow> (Inl (TransportError e), self', log @ [req])
                   | Inr _ \<Rightarrow> (Inr (), self'\<lparr>subreddits := None\<rparr>, log @ [req]))))"



section \<open>Example data\<close>


text \<open>A submission, and a comment with one reply.\<close>

definition example_submission :: submission_obj where
  "example_submission =
     \<lparr>sub_id = ascii ''5or86n'', fullname = ascii ''t3_5or86n'',
      comment_limit = VInt 2048, comment_sort = ascii ''confidence''\<rparr>"

definition example_reply :: node where
  "example_reply = Node (ascii ''c2'') None []"

definition example_parent :: node where
  "example_parent = Node (ascii ''c1'') None [example_reply]"

text \<open>A transport that answers every request with an empty result.\<close>

definition reddit_empty :: reddit where
  "reddit_empty =
     \<lparr>api_path = (\<lambda>key args. ascii key @ concat (map snd args)),
      get_listings = (\<lambda>_. Inr []),
      post_comments = (\<lambda>_. Inr []),
      post_rules = (\<lambda>_. Inr []),
      get_by_fullname = (\<lambda>_. Inr []),
      request_raw = (\<lambda>_. Inr []),
      request_any = (\<lambda>_. Inr (Parsed 0)),
      user_me = (Inr None, []),
      load_multi = (\<lambda>m. (Inr m, [])),
      json_dumps = (\<lambda>d. concat (map snd d))\<rparr>"

text \<open>
  A transport that answers a GET with the listing of the submission and the listing
  that holds \<open>example_parent\<close>, and a POST with the one comment \<open>example_reply\<close>.
\<close>

definition reddit_example :: reddit where
  "reddit_example =
     reddit_empty\<lparr>get_listings := (\<lambda>_. Inr [[], [example_parent]]),
                  post_comments := (\<lambda>_. Inr [example_reply])\<rparr>"

text \<open>A transport whose every call raises.\<close>

definition reddit_down :: reddit where
  "reddit_down =
     reddit_empty\<lparr>get_listings := (\<lambda>_. Inl 503),
                  post_comments := (\<lambda>_. Inl 503),
                  post_rules := (\<lambda>_. Inl 503)\<rparr>"


definition example_batch :: more_comments where
  "example_batch =
     \<lparr>count = Some 2, parent_id = Some (ascii ''t1_c1''),
      children = [ascii ''c2'', ascii ''c3''],
      cached_comments = None, submission = Some example_submission\<rparr>"


definition named_rule :: "pystr \<Rightarrow> rule" where
  "named_rule n =
     \<lparr>rule_subreddit = None, short_name = n, description = [], kind = ascii ''all'',
      violation_reason = n\<rparr>"



section \<open>Properties of reply\<close>

text \<open>
  C7. When the reply endpoint returns an empty result set, \<open>reply\<close> returns \<open>None\<close>
  instead of raising; when the result set is not empty it returns the first returned
  comment; an error of the transport reaches the caller unchanged. In each case exactly
  the one POST has been issued.
\<close>

theorem reply_result:
  "(post_comments r (reply_request r fn body) = Inr [] \<longrightarrow>
      reply r fn body = (Inr None, [reply_request r fn body]))
   \<and> (\<forall>cs. post_comments r (reply_request r fn body) = Inr cs \<and> cs \<noteq> [] \<longrightarrow>
      reply r fn body = (Inr (Some (hd cs)), [reply_request r fn body]))
   \<and> (\<forall>e. post_comments r (reply_request r fn body) = Inl e \<longrightarrow>
      reply r fn body = (Inl (TransportError e), [reply_request r fn body]))"
  by (auto simp: reply_def Let_def split: sum.splits list.splits)

theorem reply_result_witness:
  "post_comments reddit_empty (reply_request reddit_empty (ascii ''t1_a'') (ascii ''hi'')) = Inr []
   \<and> fst (reply reddit_empty (ascii ''t1_a'') (ascii ''hi'')) = Inr None
   \<and> post_comments reddit_example (reply_request reddit_example (ascii ''t1_a'') (ascii ''hi''))
       = Inr [example_reply]
   \<and> fst (reply reddit_example (ascii ''t1_a'') (ascii ''hi'')) = Inr (Some example_reply)
   \<and> post_comments reddit_down (reply_request reddit_down (ascii ''t1_a'') (ascii ''hi''))
       = Inl 503
   \<and> fst (reply reddit_down (ascii ''t1_a'') (ascii ''hi'')) = Inl (TransportError 503)"
  using reply_result [of reddit_empty "ascii ''t1_a''" "ascii ''hi''"]
    reply_result [of reddit_example "ascii ''t1_a''" "ascii ''hi''"]
    reply_result [of reddit_down "ascii ''t1_a''" "ascii ''hi''"]
  by (simp add: reddit_empty_def reddit_example_def reddit_down_def)

section \<open>Properties of MoreComments\<close>

lemma node_submission_set: "node_submission (set_submission s n) = s"
  by (cases n) simp



text \<open>
  C3. Expanding a batched placeholder (\<open>count > 0\<close>, not expanded yet) with a
  non-empty list of children, of any length, issues exactly one request: a POST to the
  morechildren endpoint whose data is the comma-joined list of all children, the fullname
  of the owning submission and its comment sort.
\<close>

theorem batch_one_post:
  assumes "count self = Some c" and "0 < c" and "cached_comments self = None"
    and "children self \<noteq> []" and "submission self = Some s"
  shows "snd (snd (comments r self update)) =
     [\<lparr>req_verb = POST, req_path = api_path r ''morechildren'' [], req_params = [],
       req_data = [(''children'', VStr (join (ascii '','') (children self))),
                   (''link_id'', VStr (fullname s)),
                   (''sort'', VStr (comment_sort s))]\<rparr>]"
  using assms
  by (auto simp: comments_def morechildren_request_def Let_def split: sum.splits)

theorem batch_one_post_witness:
  "count example_batch = Some 2 \<and> (0::int) < 2 \<and> cached_comments example_batch = None
   \<and> children example_batch \<noteq> [] \<and> submission example_batch = Some example_submission
   \<and> map req_data (snd (snd (comments reddit_example example_batch True))) =
       [[(''children'', VStr (ascii ''c2,c3'')),
         (''link_id'', VStr (ascii ''t3_5or86n'')),
         (''sort'', VStr (ascii ''confidence''))]]"
  using batch_one_post [of example_batch 2 example_submission reddit_example True]
  by (simp add: example_batch_def example_submission_def ascii_def)



text \<open>
  C5. When a placeholder that is not expanded yet is expanded with \<open>update=True\<close>,
  every node of the returned sequence has the submission of the placeholder as its
  submission. With \<open>update=False\<close> the returned nodes are the ones the transport
  delivered, unchanged: the replies of the fetched parent in the continuation branch, the
  answer of the POST in the batched branch. The two results differ in the submission
  references only.
\<close>

theorem propagation:
  assumes "cached_comments self = None"
  shows "(comments r self True = (Inr cs, self', log) \<longrightarrow>
           (\<forall>n \<in> set cs. node_submission n = submission self))
       \<and> (comments r self False = (Inr cs, self', log) \<longrightarrow>
           (if count self = Some 0
            then \<exists>l parent. get_listings r (hd log) = Inr [l, [parent]] \<and> cs = replies parent
            else post_comments r (hd log) = Inr cs)
           \<and> fst (comments r self True) = Inr (map (set_submission (submission self)) cs))"
  using assms
  by (auto simp: comments_def continue_comments_def load_comment_def Let_def propagate_def
      node_submission_set split: sum.splits list.splits option.splits prod.splits if_splits)

theorem propagation_witness:
  "cached_comments example_batch = None
   \<and> fst (comments reddit_example example_batch True)
       = Inr [Node (ascii ''c2'') (Some example_submission) []]
   \<and> map node_submission [Node (ascii ''c2'') (Some example_submission) []]
       = [submission example_batch]
   \<and> fst (comments reddit_example example_batch False) = Inr [Node (ascii ''c2'') None []]
   \<and> post_comments reddit_example
        (hd (snd (snd (comments reddit_example example_batch False))))
       = Inr [Node (ascii ''c2'') None []]"
  using propagation [where self = example_batch and r = reddit_example
      and cs = "[Node (ascii ''c2'') (Some example_submission) []]"
      and log = "snd (snd (comments reddit_example example_batch True))"
      and self' = "fst (snd (comments reddit_example example_batch True))"]
    propagation [where self = example_batch and r = reddit_example
      and cs = "[Node (ascii ''c2'') None []]"
      and log = "snd (snd (comments reddit_example example_batch False))"
      and self' = "fst (snd (comments reddit_example example_batch False))"]
  by (simp add: example_batch_def reddit_example_def example_reply_def comments_def
      morechildren_request_def propagate_def Let_def)

text \<open>
  C9. A new placeholder has no cache. A call of \<open>comments\<close> that returns fills the
  cache with the sequence it returns; every later call, with any \<open>update\<close> argument and
  whatever the transport would answer, returns that same sequence, leaves the object as it
  is and issues no request.
\<close>

theorem cache_stable:
  "cached_comments (init_more_comments dc dp dch) = None
   \<and> (comments r self u1 = (Inr cs, self', log) \<longrightarrow>
        cached_comments self' = Some cs \<and> comments r' self' u2 = (Inr cs, self', []))"
  by (auto simp: comments_def continue_comments_def load_comment_def Let_def
      init_more_comments_def
      split: sum.splits list.splits option.splits prod.splits if_splits)

theorem cache_stable_witness:
  "fst (comments reddit_example example_batch False) = Inr [example_reply]
   \<and> comments reddit_down (fst (snd (comments reddit_example example_batch False))) True
       = (Inr [example_reply], fst (snd (comments reddit_example example_batch False)), [])"
  using cache_stable [where r = reddit_example and self = example_batch and ?u1.0 = False
      and cs = "[example_reply]"
      and self' = "fst (snd (comments reddit_example example_batch False))"
      and log = "snd (snd (comments reddit_example example_batch False))"
      and r' = reddit_down and ?u2.0 = True]
  by (simp add: example_batch_def reddit_example_def comments_def
      morechildren_request_def propagate_def Let_def)

section \<open>Properties of the rule moderation\<close>



lemma utf8_encode_append:
  "utf8_encode (a @ b) =
     (case utf8_encode a of None \<Rightarrow> None
      | Some x \<Rightarrow> (case utf8_encode b of None \<Rightarrow> None | Some y \<Rightarrow> Some (x @ y)))"
  by (induction a) (auto split: option.splits)

lemma quote_append:
  "quote a safe = Inr x \<Longrightarrow> quote b safe = Inr y \<Longrightarrow> quote (a @ b) safe = Inr (x @ y)"
  by (auto simp: quote_def utf8_encode_append split: option.splits)

lemma quote_comma: "quote (ascii '','') (ascii '','') = Inr (ascii '','')"
  by (simp add: quote_def ascii_def utf8_char_def quote_byte_def)

lemma quote_join:
  "list_all2 (\<lambda>n q. quote n (ascii '','') = Inr q) names qs \<Longrightarrow>
   quote (join (ascii '','') names) (ascii '','') = Inr (join (ascii '','') qs)"
proof (induction names qs rule: list_all2_induct)
  case Nil
  then show ?case by (simp add: quote_def)
next
  case (Cons n ns q qs)
  show ?case
  proof (cases ns)
    case Nil
    with Cons show ?thesis by simp
  next
    case (Cons m ms)
    then obtain p ps where qs: "qs = p # ps"
      using Cons.hyps(2) by (cases qs) auto
    have "quote (ascii '','' @ join (ascii '','') ns) (ascii '','')
            = Inr (ascii '','' @ join (ascii '','') qs)"
      using quote_append [OF quote_comma Cons.IH] .
    then have "quote (n @ ascii '','' @ join (ascii '','') ns) (ascii '','')
            = Inr (q @ ascii '','' @ join (ascii '','') qs)"
      using quote_append [OF Cons.hyps(1)] by blast
    then show ?thesis using Cons qs by simp
  qed
qed

lemma utf8_encode_safe: "\<forall>c \<in> set s. c < 128 \<Longrightarrow> utf8_encode s = Some s"
  by (induction s) (auto simp: utf8_char_def)

lemma quote_safe_id:
  assumes "\<forall>c \<in> set s. always_safe c"
  shows "quote s (ascii '','') = Inr s"
proof -
  have a: "\<forall>c \<in> set s. c < 128" using assms by (auto simp: always_safe_def)
  have "concat (map (quote_byte (ascii '','')) s) = s" using assms
    by (induction s) (auto simp: quote_byte_def ascii_def)
  then show ?thesis using utf8_encode_safe[OF a] by (simp add: quote_def)
qed

text \<open>
  C8. \<open>reorder\<close> issues exactly one POST whose \<open>new_rule_order\<close> is the short names
  of the given rules, each URL-escaped, joined by commas that are not escaped; a name made
  of unreserved characters only is not changed. For the rules named r3, r1 and r2, in that
  order, the field is \<open>r3,r1,r2\<close>.
\<close>

theorem reorder_serialises:
  "(list_all2 (\<lambda>n q. quote n (ascii '','') = Inr q) (map short_name rule_list) qs \<longrightarrow>
      snd (reorder r sr rule_list) =
        [\<lparr>req_verb = POST, req_path = api_path r ''reorder_subreddit_rules'' [],
          req_params = [],
          req_data = [(''r'', VStr sr),
                      (''new_rule_order'', VStr (join (ascii '','') qs))]\<rparr>])
   \<and> (\<forall>n. (\<forall>c \<in> set n. always_safe c) \<longrightarrow> quote n (ascii '','') = Inr n)
   \<and> map req_data (snd (reorder r sr
        [named_rule (ascii ''r3''), named_rule (ascii ''r1''), named_rule (ascii ''r2'')])) =
        [[(''r'', VStr sr), (''new_rule_order'', VStr (ascii ''r3,r1,r2''))]]"
proof (intro conjI impI allI)
  assume "list_all2 (\<lambda>n q. quote n (ascii '','') = Inr q) (map short_name rule_list) qs"
  from quote_join [OF this]
  show "snd (reorder r sr rule_list) =
        [\<lparr>req_verb = POST, req_path = api_path r ''reorder_subreddit_rules'' [],
          req_params = [],
          req_data = [(''r'', VStr sr),
                      (''new_rule_order'', VStr (join (ascii '','') qs))]\<rparr>]"
    by (simp add: reorder_def Let_def split: sum.splits)
next
  fix n :: pystr assume "\<forall>c \<in> set n. always_safe c"
  then show "quote n (ascii '','') = Inr n" by (rule quote_safe_id)
next
  show "map req_data (snd (reorder r sr
        [named_rule (ascii ''r3''), named_rule (ascii ''r1''), named_rule (ascii ''r2'')])) =
        [[(''r'', VStr sr), (''new_rule_order'', VStr (ascii ''r3,r1,r2''))]]"
    by (simp add: reorder_def Let_def named_rule_def ascii_def quote_def utf8_char_def
        quote_byte_def always_safe_def split: sum.splits)
qed

theorem reorder_serialises_witness:
  "list_all2 (\<lambda>n q. quote n (ascii '','') = Inr q)
      (map short_name [named_rule (ascii ''No spam''), named_rule [233]])
      [ascii ''No%20spam'', ascii ''%C3%A9'']
   \<and> map req_data (snd (reorder reddit_empty (ascii ''test'')
         [named_rule (ascii ''No spam''), named_rule [233]])) =
       [[(''r'', VStr (ascii ''test'')),
         (''new_rule_order'', VStr (ascii ''No%20spam,%C3%A9''))]]"
  using reorder_serialises [where rule_list = "[named_rule (ascii ''No spam''), named_rule [233]]"
      and qs = "[ascii ''No%20spam'', ascii ''%C3%A9'']" and r = reddit_empty
      and sr = "ascii ''test''"]
  by (simp add: named_rule_def ascii_def quote_def utf8_char_def quote_byte_def
      always_safe_def hex_digit_def)


section \<open>Properties of sluggify\<close>




































section \<open>Properties of the Redditor and Multireddit operations\<close>














end
